theory Spec2Isabelle
  imports Complex_Main
begin

section \<open>Numeric model\<close>

text \<open>
  The functions of \<^verbatim>\<open>astromodels/functions/functions.py\<close> compute on Python floats
  (the parameter values) and on numpy float arrays (the coordinate \<open>x\<close>). Both are
  modelled by the real numbers, and the results of \<open>+\<close>, \<open>-\<close>, \<open>*\<close> and \<open>/\<close> are
  the exact ones: rounding is outside the model, and so is, in general, a result of these
  four operations that leaves the float range (Python and numpy return \<open>inf\<close> or
  \<open>0.0\<close> for it and do not raise). The two places where such a result goes straight
  into a function that treats it specially are written out where they occur: the
  quotient passed to \<^verbatim>\<open>math.log\<close> in \<^verbatim>\<open>ggrb_int_pl\<close> and the exponent of
  \<^verbatim>\<open>pow\<close> in \<^verbatim>\<open>peak_energy\<close>. What is kept throughout are the exceptions of
  the operations themselves, and the difference between the two kinds of arithmetic:

  \<^item> a Python float operation raises where it has no result (\<open>1.0 / 0.0\<close> raises
    ZeroDivisionError, \<open>pow(-1.0, 0.5)\<close> and \<open>math.log(0.0)\<close> raise ValueError,
    \<open>pow(10.0, 1000.0)\<close> and \<open>math.exp(1000.0)\<close> raise OverflowError), so it returns
    \<open>error + real\<close>;
  \<^item> a numpy operation returns \<open>inf\<close> or \<open>nan\<close> there (with a warning), so it
    returns \<open>real option\<close>, where \<open>None\<close> stands for a result that is not a
    real number; \<open>None\<close> is propagated by every later numpy operation.

  An array is a list of its elements; every array operation of the module is elementwise.
\<close>

datatype error =
    AssertionError
  | RuntimeError
  | ZeroDivisionError
  | ValueError
  | OverflowError
  | AttributeError
  | InvalidUsageForFunction

type_synonym npfloat = "real option"

text \<open>Sequencing of computations that may raise: the first exception wins.\<close>

definition ebind :: "error + 'a \<Rightarrow> ('a \<Rightarrow> error + 'b) \<Rightarrow> error + 'b" where
  "ebind m f = (case m of Inl e \<Rightarrow> Inl e | Inr v \<Rightarrow> f v)"

subsection \<open>Python float operations\<close>

definition py_div :: "real \<Rightarrow> real \<Rightarrow> error + real" where
  "py_div x y = (if y = 0 then Inl ZeroDivisionError else Inr (x / y))"

text \<open>
  The range of a float. A library function whose exact result is \<open>r\<close> overflows when
  the float nearest to \<open>r\<close> is infinite, that is from \<open>2^1024 - 2^970\<close> on (half a
  unit in the last place above the largest float), and it underflows to \<open>0.0\<close> when the
  float nearest to \<open>r\<close> is zero, that is up to \<open>2^-1075\<close> (half the smallest positive
  float). \<^verbatim>\<open>pow\<close> and \<^verbatim>\<open>math.exp\<close> raise OverflowError on overflow and return
  \<open>0.0\<close> on underflow.
\<close>

definition overflow_threshold :: real where
  "overflow_threshold = 2 ^ 1024 - 2 ^ 970"

definition underflow_threshold :: real where
  "underflow_threshold = 1 / 2 ^ 1075"

definition underflow :: "real \<Rightarrow> real" where
  "underflow r = (if \<bar>r\<bar> \<le> underflow_threshold then 0 else r)"

definition to_float :: "real \<Rightarrow> error + real" where
  "to_float r = (if overflow_threshold \<le> \<bar>r\<bar> then Inl OverflowError else Inr (underflow r))"

text \<open>
  \<open>pow(x, y)\<close> on floats: \<open>pow(x, 0.0)\<close> is \<open>1.0\<close> for every \<open>x\<close>; zero to a
  negative power raises ZeroDivisionError; a negative number to a power that is not an
  integer raises ValueError; otherwise the power is computed, and raises OverflowError
  when it overflows.
\<close>

definition py_pow :: "real \<Rightarrow> real \<Rightarrow> error + real" where
  "py_pow x y =
     (if y = 0 then Inr 1
      else if x = 0 then (if y < 0 then Inl ZeroDivisionError else Inr 0)
      else if x < 0 then
        (if y = of_int \<lfloor>y\<rfloor> then to_float (x powi \<lfloor>y\<rfloor>) else Inl ValueError)
      else to_float (x powr y))"

definition math_log :: "real \<Rightarrow> error + real" where
  "math_log x = (if x \<le> 0 then Inl ValueError else Inr (ln x))"

definition math_exp :: "real \<Rightarrow> error + real" where
  "math_exp x = to_float (exp x)"

subsection \<open>numpy operations, elementwise\<close>

definition np_lift2 :: "(real \<Rightarrow> real \<Rightarrow> real) \<Rightarrow> npfloat \<Rightarrow> npfloat \<Rightarrow> npfloat" where
  "np_lift2 f u v =
     (case u of None \<Rightarrow> None
      | Some x \<Rightarrow> (case v of None \<Rightarrow> None | Some y \<Rightarrow> Some (f x y)))"

definition np_mul :: "npfloat \<Rightarrow> npfloat \<Rightarrow> npfloat" where
  "np_mul = np_lift2 (\<lambda>x y. x * y)"

definition np_add :: "npfloat \<Rightarrow> npfloat \<Rightarrow> npfloat" where
  "np_add = np_lift2 (\<lambda>x y. x + y)"

definition np_sub :: "npfloat \<Rightarrow> npfloat \<Rightarrow> npfloat" where
  "np_sub = np_lift2 (\<lambda>x y. x - y)"

definition np_neg :: "npfloat \<Rightarrow> npfloat" where
  "np_neg u = map_option uminus u"

definition np_exp :: "npfloat \<Rightarrow> npfloat" where
  "np_exp u = map_option exp u"

definition np_div :: "npfloat \<Rightarrow> npfloat \<Rightarrow> npfloat" where
  "np_div u v =
     (case u of None \<Rightarrow> None
      | Some x \<Rightarrow>
          (case v of None \<Rightarrow> None
           | Some y \<Rightarrow> if y = 0 then None else Some (x / y)))"

definition np_power :: "npfloat \<Rightarrow> npfloat \<Rightarrow> npfloat" where
  "np_power u v =
     (case u of None \<Rightarrow> None
      | Some x \<Rightarrow>
          (case v of None \<Rightarrow> None
           | Some y \<Rightarrow>
               if y = 0 then Some 1
               else if x = 0 then (if y < 0 then None else Some 0)
               else if x < 0 then
                 (if y = of_int \<lfloor>y\<rfloor> then Some (x powi \<lfloor>y\<rfloor>) else None)
               else Some (x powr y)))"

text \<open>
  \<open>np.where(c, v, w)\<close>: \<open>c\<close> is an array of booleans, \<open>v\<close> and \<open>w\<close> are arrays or
  scalars; a scalar is broadcast to every position.
\<close>

datatype 'a operand = Scalar 'a | Array "'a list"

fun elem_at :: "'a operand \<Rightarrow> nat \<Rightarrow> 'a" where
  "elem_at (Scalar v) i = v"
| "elem_at (Array vs) i = vs ! i"

definition np_where :: "bool list \<Rightarrow> 'a operand \<Rightarrow> 'a operand \<Rightarrow> 'a list" where
  "np_where c v w = map (\<lambda>i. if c ! i then elem_at v i else elem_at w i) [0..<length c]"

definition np_and :: "bool list \<Rightarrow> bool list \<Rightarrow> bool list" where
  "np_and c d = map (\<lambda>(p, q). p \<and> q) (zip c d)"

section \<open>uniform\_prior\<close>

text \<open>
  \<^verbatim>\<open>
  def evaluate(self, x, lower_bound, upper_bound, value):
      return np.where( (x >= lower_bound) & (x <= upper_bound), value, 0.0)
  \<close>
\<close>

definition uniform_prior_evaluate :: "real list \<Rightarrow> real \<Rightarrow> real \<Rightarrow> real \<Rightarrow> real list" where
  "uniform_prior_evaluate x lower_bound upper_bound val =
     np_where (np_and (map (\<lambda>xi. xi \<ge> lower_bound) x) (map (\<lambda>xi. xi \<le> upper_bound) x))
       (Scalar val) (Scalar 0)"

section \<open>log\_uniform\_prior\<close>

text \<open>
  \<^verbatim>\<open>
  def evaluate(self, x, lower_bound, upper_bound):
      return np.where((x > lower_bound) & (x < upper_bound), 1.0/x, 0.0)
  \<close>
  \<open>1.0/x\<close> is computed for the whole array before \<open>np.where\<close> selects; at an
  element \<open>0\<close> it is \<open>inf\<close>.
\<close>

definition log_uniform_prior_evaluate :: "real list \<Rightarrow> real \<Rightarrow> real \<Rightarrow> npfloat list" where
  "log_uniform_prior_evaluate x lower_bound upper_bound =
     np_where (np_and (map (\<lambda>xi. xi > lower_bound) x) (map (\<lambda>xi. xi < upper_bound) x))
       (Array (map (\<lambda>xi. np_div (Some 1) (Some xi)) x)) (Scalar (Some 0))"

section \<open>bias\<close>

text \<open>
  \<^verbatim>\<open>
  def _set_units(self, x_unit, y_unit):
      self.k.unit = x_unit
      if x_unit != y_unit:
          raise InvalidUsageForFunction("Function bias cannot be given different units for x and y")
  \<close>
  The function owns one parameter \<open>k\<close> with a value and a unit. A unit is a value of an
  arbitrary type \<open>'u\<close>, compared by equality. The method mutates the parameter and may
  then raise, so it returns its outcome together with the state it leaves behind.
\<close>

record 'u bias =
  k_value :: real
  k_unit :: 'u

definition bias_set_units :: "'u bias \<Rightarrow> 'u \<Rightarrow> 'u \<Rightarrow> (error + unit) \<times> 'u bias" where
  "bias_set_units self x_unit y_unit =
     (let self1 = self\<lparr>k_unit := x_unit\<rparr>
      in if x_unit \<noteq> y_unit then (Inl InvalidUsageForFunction, self1) else (Inr (), self1))"

section \<open>synchrotron\<close>

text \<open>
  The units library and the process-wide unit configuration are outside the module; they
  are parameters of the model. \<open>physical_type u = None\<close> says that the object \<open>u\<close> has
  no attribute \<^verbatim>\<open>physical_type\<close> (\<^verbatim>\<open>hasattr\<close> is false, and reading the attribute
  raises AttributeError).
\<close>

record 'u astropy_units =
  physical_type :: "'u \<Rightarrow> string option"
  unit_mul :: "'u \<Rightarrow> 'u \<Rightarrow> 'u"
  decompose :: "'u \<Rightarrow> 'u"

record 'u unit_system =
  photon_energy :: 'u
  time :: 'u
  area :: 'u
  particle_energy :: 'u

text \<open>
  \<^verbatim>\<open>
  def _set_units(self, x_unit, y_unit):
      if hasattr(x_unit,"physical_type") and x_unit.physical_type == 'energy':
          current_units = get_units()
          should_be_unitless = y_unit * (current_units.photon_energy * current_units.time * current_units.area)
          if not hasattr(should_be_unitless,'physical_type') or \
             should_be_unitless.decompose().physical_type != 'dimensionless':
              raise InvalidUsageForFunction("Unit for y is not differential flux. ...")
      else:
          raise InvalidUsageForFunction("Unit for x is not an energy. ...")
  \<close>
\<close>

definition synchrotron_set_units ::
  "'u astropy_units \<Rightarrow> 'u unit_system \<Rightarrow> 'u \<Rightarrow> 'u \<Rightarrow> error + unit" where
  "synchrotron_set_units ap current_units x_unit y_unit =
     (if physical_type ap x_unit \<noteq> None \<and> physical_type ap x_unit = Some ''energy'' then
        (let should_be_unitless =
               unit_mul ap y_unit
                 (unit_mul ap (unit_mul ap (photon_energy current_units) (time current_units))
                    (area current_units))
         in if physical_type ap should_be_unitless = None then Inl InvalidUsageForFunction
            else (case physical_type ap (decompose ap should_be_unitless) of
                    None \<Rightarrow> Inl AttributeError
                  | Some t \<Rightarrow>
                      if t \<noteq> ''dimensionless'' then Inl InvalidUsageForFunction else Inr ()))
      else Inl InvalidUsageForFunction)"

section \<open>band\<close>

text \<open>
  \<^verbatim>\<open>scipy.special.gammaincc\<close> and \<^verbatim>\<open>scipy.special.gamma\<close> are outside the module;
  they are parameters of the model. Both are numpy functions: they return a numpy float
  (\<open>nan\<close> or \<open>inf\<close> outside their domain) and never raise.
\<close>

record scipy_special =
  gammaincc :: "real \<Rightarrow> real \<Rightarrow> npfloat"
  gamma :: "real \<Rightarrow> npfloat"

text \<open>
  \<^verbatim>\<open>
  def ggrb_int_cpl( a, Ec, Emin, Emax):
      i1 = gammaincc(2 + a, Emin / Ec) * gamma(2+a)
      i2 = gammaincc(2 + a, Emax / Ec) * gamma(2+a)
      return -Ec * Ec * (i2 - i1)
  \<close>
  \<open>Emin / Ec\<close> divides two Python floats.
\<close>

definition ggrb_int_cpl :: "scipy_special \<Rightarrow> real \<Rightarrow> real \<Rightarrow> real \<Rightarrow> real \<Rightarrow> error + npfloat" where
  "ggrb_int_cpl sp a Ec Emin Emax =
     ebind (py_div Emin Ec) (\<lambda>q1.
       let i1 = np_mul (gammaincc sp (2 + a) q1) (gamma sp (2 + a)) in
       ebind (py_div Emax Ec) (\<lambda>q2.
         let i2 = np_mul (gammaincc sp (2 + a) q2) (gamma sp (2 + a)) in
         Inr (np_mul (Some (- Ec * Ec)) (np_sub i2 i1))))"

text \<open>
  \<^verbatim>\<open>
  def ggrb_int_pl(a, b, Ec, Emin, Emax):
      pre = pow(a-b, a-b) * math.exp(b-a) / pow(Ec, b)
      if b != -2:
          return pre / (2+b) * (pow(Emax, 2+b) - pow(Emin, 2+b))
      else:
          return pre * math.log(Emax / Emin)
  \<close>
  The operands are evaluated from left to right. The quotient \<open>Emax / Emin\<close> reaches
  \<^verbatim>\<open>math.log\<close> as a float: a quotient that underflows is \<open>0.0\<close>, on which
  \<^verbatim>\<open>math.log\<close> raises.
\<close>

definition ggrb_int_pl :: "real \<Rightarrow> real \<Rightarrow> real \<Rightarrow> real \<Rightarrow> real \<Rightarrow> error + real" where
  "ggrb_int_pl a b Ec Emin Emax =
     ebind (py_pow (a - b) (a - b)) (\<lambda>p1.
     ebind (math_exp (b - a)) (\<lambda>ex.
     ebind (py_pow Ec b) (\<lambda>p2.
     ebind (py_div (p1 * ex) p2) (\<lambda>pre.
       if b \<noteq> - 2 then
         ebind (py_div pre (2 + b)) (\<lambda>q.
         ebind (py_pow Emax (2 + b)) (\<lambda>e1.
         ebind (py_pow Emin (2 + b)) (\<lambda>e2.
           Inr (q * (e1 - e2)))))
       else
         ebind (py_div Emax Emin) (\<lambda>r.
         ebind (math_log (underflow r)) (\<lambda>l.
           Inr (pre * l)))))))"

text \<open>
  The cutoff energy and the split energy of \<^verbatim>\<open>band.evaluate\<close>:
  \<^verbatim>\<open>
  if alpha == -2:
      Ec = xp / 0.0001 #TRICK: avoid a=-2
  else:
      Ec = xp / (2 + alpha)
  Esplit = (alpha-beta) * Ec
  \<close>
\<close>

definition band_Ec :: "real \<Rightarrow> real \<Rightarrow> error + real" where
  "band_Ec alpha xp =
     (if alpha = - 2 then py_div xp (1 / 10000) else py_div xp (2 + alpha))"

definition band_Esplit :: "real \<Rightarrow> real \<Rightarrow> real \<Rightarrow> real" where
  "band_Esplit alpha beta Ec = (alpha - beta) * Ec"

text \<open>
  The integrated flux. \<^verbatim>\<open>ggrb_int_cpl\<close> returns a numpy float and \<^verbatim>\<open>ggrb_int_pl\<close>
  a Python float; the sum of the two is a numpy float.
  \<^verbatim>\<open>
  if opt==0:
      intflux = self.ggrb_int_cpl(alpha, Ec, a, b)
  else:
      if a <= Esplit and Esplit <= b:
          intflux = (self.ggrb_int_cpl(alpha, Ec, a, Esplit) +
                     self.ggrb_int_pl (alpha, beta, Ec, Esplit, b))
      else:
          if Esplit < a:
              intflux = self.ggrb_int_pl(alpha, beta, Ec, a, b)
          else:
              raise RuntimeError("Esplit > emax!")
  \<close>
\<close>

datatype number = PyFloat real | NpFloat npfloat

definition band_intflux ::
  "scipy_special \<Rightarrow> real \<Rightarrow> real \<Rightarrow> real \<Rightarrow> real \<Rightarrow> real \<Rightarrow> real \<Rightarrow> real \<Rightarrow> error + number" where
  "band_intflux sp alpha beta Ec Esplit a b opt =
     (if opt = 0 then
        ebind (ggrb_int_cpl sp alpha Ec a b) (\<lambda>c. Inr (NpFloat c))
      else if a \<le> Esplit \<and> Esplit \<le> b then
        ebind (ggrb_int_cpl sp alpha Ec a Esplit) (\<lambda>c.
        ebind (ggrb_int_pl alpha beta Ec Esplit b) (\<lambda>p.
          Inr (NpFloat (np_add c (Some p)))))
      else if Esplit < a then
        ebind (ggrb_int_pl alpha beta Ec a b) (\<lambda>p. Inr (PyFloat p))
      else Inl RuntimeError)"

text \<open>
  \<^verbatim>\<open>
  erg2keV = 6.24151e8
  norm = F * erg2keV / intflux
  \<close>
  Dividing by a Python float \<open>0.0\<close> raises; dividing by a numpy float \<open>0.0\<close> does not.
\<close>

definition erg2keV :: real where
  "erg2keV = 624151000"

definition band_norm :: "real \<Rightarrow> number \<Rightarrow> error + npfloat" where
  "band_norm F intflux =
     (case intflux of
        PyFloat r \<Rightarrow> ebind (py_div (F * erg2keV) r) (\<lambda>n. Inr (Some n))
      | NpFloat v \<Rightarrow> Inr (np_div (Some (F * erg2keV)) v))"

text \<open>
  Boolean-mask indexing of an array: \<open>x[idx]\<close> is the array of the elements of \<open>x\<close> at
  the positions where \<open>idx\<close> is true, in order; \<open>flux[idx] = vs\<close> stores the elements
  of \<open>vs\<close>, in order, at those positions.
\<close>

fun mask_select :: "bool list \<Rightarrow> 'a list \<Rightarrow> 'a list" where
  "mask_select (m # ms) (x # xs) = (if m then x # mask_select ms xs else mask_select ms xs)"
| "mask_select _ _ = []"

fun mask_assign :: "'a list \<Rightarrow> bool list \<Rightarrow> 'a list \<Rightarrow> 'a list" where
  "mask_assign (f # fs) (m # ms) vs =
     (if m then (case vs of [] \<Rightarrow> f # fs | v # vs' \<Rightarrow> v # mask_assign fs ms vs')
      else f # mask_assign fs ms vs)"
| "mask_assign fs _ _ = fs"

text \<open>
  The two branches of the Band model, at one element \<open>xi\<close> of the array:
  \<^verbatim>\<open>
  norm * np.power(x[idx] / Ec, alpha) * np.exp(-x[idx] / Ec)
  norm * pow(alpha-beta, alpha-beta) * math.exp(beta-alpha) * np.power(x[nidx] / Ec, beta)
  \<close>
  In the second, \<open>p\<close> is the value of \<open>pow(alpha-beta, alpha-beta)\<close> and \<open>ex\<close> the
  value of \<open>math.exp(beta-alpha)\<close>; both are Python floats, computed once.
\<close>

definition band_low :: "npfloat \<Rightarrow> real \<Rightarrow> real \<Rightarrow> real \<Rightarrow> npfloat" where
  "band_low nrm Ec alpha xi =
     np_mul (np_mul nrm (np_power (np_div (Some xi) (Some Ec)) (Some alpha)))
       (np_exp (np_div (np_neg (Some xi)) (Some Ec)))"

definition band_high ::
  "npfloat \<Rightarrow> real \<Rightarrow> real \<Rightarrow> real \<Rightarrow> real \<Rightarrow> real \<Rightarrow> real \<Rightarrow> npfloat" where
  "band_high nrm p ex Ec alpha beta xi =
     np_mul (np_mul (np_mul nrm (Some p)) (Some ex))
       (np_power (np_div (Some xi) (Some Ec)) (Some beta))"

text \<open>
  \<^verbatim>\<open>
  if opt==0:
      flux = norm * np.power(x / Ec, alpha) * np.exp( - x / Ec)
  else:
      idx = (x < Esplit)
      flux = np.zeros_like( x )
      flux[idx] = ( norm * np.power(x[idx] / Ec, alpha) * np.exp(-x[idx] / Ec) )
      nidx = ~idx
      flux[nidx] = ( norm * pow(alpha-beta, alpha-beta) * math.exp(beta-alpha) *
                     np.power(x[nidx] / Ec, beta) )
  return flux
  \<close>
\<close>

definition band_flux ::
  "real list \<Rightarrow> real \<Rightarrow> real \<Rightarrow> real \<Rightarrow> real \<Rightarrow> npfloat \<Rightarrow> real \<Rightarrow> error + npfloat list" where
  "band_flux x alpha beta Ec Esplit nrm opt =
     (if opt = 0 then Inr (map (band_low nrm Ec alpha) x)
      else
        (let idx = map (\<lambda>xi. xi < Esplit) x;
             flux0 = map (\<lambda>_. Some 0) x;
             flux1 = mask_assign flux0 idx (map (band_low nrm Ec alpha) (mask_select idx x));
             nidx = map Not idx
         in ebind (py_pow (alpha - beta) (alpha - beta)) (\<lambda>p.
            ebind (math_exp (beta - alpha)) (\<lambda>ex.
              Inr (mask_assign flux1 nidx
                     (map (band_high nrm p ex Ec alpha beta) (mask_select nidx x)))))))"

text \<open>
  \<^verbatim>\<open>
  def evaluate(self, x, alpha, beta, xp, F, a, b, opt):
      assert opt == 0 or opt == 1, "Opt must be either 0 or 1"
      ...
  \<close>
\<close>

definition band_evaluate ::
  "scipy_special \<Rightarrow> real list \<Rightarrow> real \<Rightarrow> real \<Rightarrow> real \<Rightarrow> real \<Rightarrow> real \<Rightarrow> real \<Rightarrow> real
     \<Rightarrow> error + npfloat list" where
  "band_evaluate sp x alpha beta xp F a b opt =
     (if \<not> (opt = 0 \<or> opt = 1) then Inl AssertionError
      else
        ebind (band_Ec alpha xp) (\<lambda>Ec.
          let Esplit = band_Esplit alpha beta Ec in
          ebind (band_intflux sp alpha beta Ec Esplit a b opt) (\<lambda>intflux.
          ebind (band_norm F intflux) (\<lambda>nrm.
            band_flux x alpha beta Ec Esplit nrm opt))))"

section \<open>log\_parabola\<close>

text \<open>
  \<^verbatim>\<open>
  @property
  def peak_energy(self):
      return self.piv.value * pow(10, (2 + self.alpha.value) / (2 * self.beta.value) )
  \<close>
  The function owns the parameters \<open>K\<close>, \<open>piv\<close>, \<open>alpha\<close> and \<open>beta\<close>; the accessor
  reads their current values. It returns its outcome together with the state it leaves.
  The exponent is a quotient: where it exceeds the float range it is \<open>inf\<close>, and
  \<open>pow(10, inf)\<close> is \<open>inf\<close>, not an exception.
\<close>

record log_parabola =
  K_value :: real
  piv_value :: real
  alpha_value :: real
  beta_value :: real

definition peak_energy :: "log_parabola \<Rightarrow> (error + real) \<times> log_parabola" where
  "peak_energy self =
     (ebind (py_div (2 + alpha_value self) (2 * beta_value self)) (\<lambda>e.
      if overflow_threshold \<le> e then Inr (piv_value self * 10 powr e)
      else
        ebind (py_pow 10 e) (\<lambda>p.
          Inr (piv_value self * p))), self)"

section \<open>Reference formulas and predicates\<close>

text \<open>
  The closed form that \<^verbatim>\<open>ggrb_int_pl\<close> is specified to return, written with the
  real power and the natural logarithm: with \<open>pre = (a-b)^(a-b) exp(b-a) / Ec^b\<close>, the
  polynomial antiderivative \<open>pre/(2+b) (Emax^(2+b) - Emin^(2+b))\<close> for \<open>b \<noteq> -2\<close> and
  the logarithmic form \<open>pre log(Emax/Emin)\<close> for \<open>b = -2\<close>.
\<close>

definition ggrb_int_pl_spec :: "real \<Rightarrow> real \<Rightarrow> real \<Rightarrow> real \<Rightarrow> real \<Rightarrow> real" where
  "ggrb_int_pl_spec a b Ec Emin Emax =
     (let pre = (a - b) powr (a - b) * exp (b - a) / Ec powr b
      in if b \<noteq> - 2 then pre / (2 + b) * (Emax powr (2 + b) - Emin powr (2 + b))
         else pre * ln (Emax / Emin))"

text \<open>
  A real number is in the float range when, as the result of a library function, it
  neither overflows nor underflows to zero.
\<close>

definition in_float_range :: "real \<Rightarrow> bool" where
  "in_float_range r = (underflow_threshold < \<bar>r\<bar> \<and> \<bar>r\<bar> < overflow_threshold)"

text \<open>
  What \<^verbatim>\<open>synchrotron._set_units\<close> requires of its arguments: \<open>x_unit\<close> is an energy,
  and \<open>y_unit\<close> is a differential photon flux, that is, its product with photon energy,
  time and area has a physical type and decomposes to a dimensionless unit.
\<close>

definition should_be_unitless :: "'u astropy_units \<Rightarrow> 'u unit_system \<Rightarrow> 'u \<Rightarrow> 'u" where
  "should_be_unitless ap cu y_unit =
     unit_mul ap y_unit (unit_mul ap (unit_mul ap (photon_energy cu) (time cu)) (area cu))"

definition is_energy :: "'u astropy_units \<Rightarrow> 'u \<Rightarrow> bool" where
  "is_energy ap x_unit = (physical_type ap x_unit = Some ''energy'')"

definition is_differential_flux :: "'u astropy_units \<Rightarrow> 'u unit_system \<Rightarrow> 'u \<Rightarrow> bool" where
  "is_differential_flux ap cu y_unit =
     (physical_type ap (should_be_unitless ap cu y_unit) \<noteq> None \<and>
      physical_type ap (decompose ap (should_be_unitless ap cu y_unit)) = Some ''dimensionless'')"

text \<open>
  A small units library and unit configuration on which the unit checks can be run: a
  unit is the name of its physical type, the object \<open>''number''\<close> is not a unit, and only
  the product of \<open>''flux''\<close> with another unit is dimensionless.
\<close>

definition toy_units :: "string astropy_units" where
  "toy_units = \<lparr>physical_type = (\<lambda>u. if u = ''number'' then None else Some u),
                 unit_mul = (\<lambda>u v. if u = ''flux'' then ''dimensionless'' else ''other''),
                 decompose = (\<lambda>u. u)\<rparr>"

definition toy_system :: "string unit_system" where
  "toy_system = \<lparr>photon_energy = ''energy'', time = ''time'', area = ''area'',
                  particle_energy = ''energy''\<rparr>"

text \<open>A stand-in for the special functions, where their values do not matter.\<close>

definition no_special :: scipy_special where
  "no_special = \<lparr>gammaincc = (\<lambda>_ _. None), gamma = (\<lambda>_. None)\<rparr>"

section \<open>Properties\<close>

subsection \<open>Sequencing and the arithmetic operations\<close>

lemma ebind_Inr [simp]: "ebind (Inr v) f = f v"
  by (simp add: ebind_def)

lemma ebind_Inl [simp]: "ebind (Inl e) f = Inl e"
  by (simp add: ebind_def)

lemma ebind_eq_Inl_iff:
  "ebind m f = Inl e \<longleftrightarrow> m = Inl e \<or> (\<exists>v. m = Inr v \<and> f v = Inl e)"
  by (cases m) simp_all

lemma ebind_eq_Inr_iff:
  "ebind m f = Inr r \<longleftrightarrow> (\<exists>v. m = Inr v \<and> f v = Inr r)"
  by (cases m) simp_all

lemma to_float_in_range: "in_float_range r \<Longrightarrow> to_float r = Inr r"
  by (simp add: to_float_def in_float_range_def underflow_def)

lemma to_float_eq_Inr:
  "to_float r = Inr v \<Longrightarrow> \<bar>r\<bar> < overflow_threshold \<and> v = underflow r"
  by (simp add: to_float_def split: if_splits)

lemma py_pow_pos: "0 < x \<Longrightarrow> in_float_range (x powr y) \<Longrightarrow> py_pow x y = Inr (x powr y)"
  by (simp add: py_pow_def to_float_in_range)

lemma math_exp_in_range: "in_float_range (exp x) \<Longrightarrow> math_exp x = Inr (exp x)"
  by (simp add: math_exp_def to_float_in_range)

lemma py_div_eq_Inr_iff: "py_div x y = Inr q \<longleftrightarrow> y \<noteq> 0 \<and> q = x / y"
  by (auto simp add: py_div_def)

lemma math_log_eq_Inr_iff: "math_log x = Inr l \<longleftrightarrow> 0 < x \<and> l = ln x"
  by (auto simp add: math_log_def)

lemma np_power_pos: "0 < x \<Longrightarrow> np_power (Some x) (Some y) = Some (x powr y)"
  by (simp add: np_power_def)

lemma np_div_nonzero: "y \<noteq> 0 \<Longrightarrow> np_div (Some x) (Some y) = Some (x / y)"
  by (simp add: np_div_def)

text \<open>The arithmetic raises nothing but ZeroDivisionError, ValueError and OverflowError.\<close>

lemma py_div_error: "py_div x y = Inl e \<Longrightarrow> e = ZeroDivisionError"
  by (simp add: py_div_def split: if_splits)

lemma to_float_error: "to_float r = Inl e \<Longrightarrow> e = OverflowError"
  by (simp add: to_float_def split: if_splits)

lemma py_pow_error:
  "py_pow x y = Inl e \<Longrightarrow> e = ZeroDivisionError \<or> e = ValueError \<or> e = OverflowError"
  by (auto simp add: py_pow_def split: if_splits dest: to_float_error)

lemma math_exp_error: "math_exp x = Inl e \<Longrightarrow> e = OverflowError"
  by (simp add: math_exp_def to_float_error)

lemma math_log_error: "math_log x = Inl e \<Longrightarrow> e = ValueError"
  by (simp add: math_log_def split: if_splits)

lemma ggrb_int_cpl_error: "ggrb_int_cpl sp a Ec Emin Emax = Inl e \<Longrightarrow> e = ZeroDivisionError"
  by (auto simp add: ggrb_int_cpl_def ebind_eq_Inl_iff Let_def dest: py_div_error)

lemma ggrb_int_pl_error:
  "ggrb_int_pl a b Ec Emin Emax = Inl e \<Longrightarrow>
     e = ZeroDivisionError \<or> e = ValueError \<or> e = OverflowError"
  by (auto simp add: ggrb_int_pl_def ebind_eq_Inl_iff split: if_splits
      dest: py_div_error py_pow_error math_log_error math_exp_error)

lemma band_norm_error: "band_norm F i = Inl e \<Longrightarrow> e = ZeroDivisionError"
  by (cases i) (auto simp add: band_norm_def ebind_eq_Inl_iff dest: py_div_error)

lemma band_flux_error:
  "band_flux x alpha beta Ec Esplit nrm opt = Inl e \<Longrightarrow>
     e = ZeroDivisionError \<or> e = ValueError \<or> e = OverflowError"
  by (auto simp add: band_flux_def ebind_eq_Inl_iff Let_def split: if_splits
      dest: py_pow_error math_exp_error)

lemma band_intflux_error:
  "band_intflux sp alpha beta Ec Esplit a b opt = Inl e \<Longrightarrow>
     e = ZeroDivisionError \<or> e = ValueError \<or> e = OverflowError \<or>
     (e = RuntimeError \<and> opt \<noteq> 0 \<and> \<not> (a \<le> Esplit \<and> Esplit \<le> b) \<and> \<not> Esplit < a)"
  by (auto simp add: band_intflux_def ebind_eq_Inl_iff split: if_splits
      dest: ggrb_int_cpl_error ggrb_int_pl_error)

lemma band_Ec_value:
  "band_Ec alpha xp = Inr (if alpha = - 2 then xp / (1 / 10000) else xp / (2 + alpha))"
  by (simp add: band_Ec_def py_div_def)

subsection \<open>The float range\<close>

lemma overflow_threshold_bounds:
  "1 < overflow_threshold" "(2::real) ^ 896 < overflow_threshold"
  "overflow_threshold \<le> 2 ^ 1024"
  by (simp_all add: overflow_threshold_def)

lemma underflow_threshold_bounds:
  "0 < underflow_threshold" "underflow_threshold < 1 / 2 ^ 1024"
  by (simp_all add: underflow_threshold_def)

lemma in_float_range_numerals: "in_float_range 1" "in_float_range 2" "in_float_range 4"
  by (simp_all add: in_float_range_def underflow_threshold_def overflow_threshold_def)

lemma exp_le_pow3: "exp (real n) \<le> 3 ^ n"
proof -
  have "exp (real n) = exp 1 ^ n" by (simp add: exp_of_nat_mult [symmetric])
  also have "\<dots> \<le> 3 ^ n" by (intro power_mono exp_le) simp
  finally show ?thesis .
qed

lemma exp_neg_in_float_range:
  fixes d :: real
  assumes "0 \<le> d" and "d \<le> 128"
  shows "in_float_range (exp (- d))"
proof -
  have "exp d \<le> exp 128" using assms by simp
  also have "exp (128::real) \<le> 3 ^ 128" using exp_le_pow3 [of 128] by simp
  also have "\<dots> < 2 ^ 1075" by simp
  finally have "exp d < 2 ^ 1075" .
  then have "1 / 2 ^ 1075 < 1 / exp d"
    by (simp add: field_simps)
  then have lo: "underflow_threshold < exp (- d)"
    by (simp add: underflow_threshold_def exp_minus divide_simps)
  have "exp (- d) \<le> 1" using assms by simp
  then have hi: "exp (- d) < overflow_threshold" using overflow_threshold_bounds(1) by linarith
  from lo hi show ?thesis by (simp add: in_float_range_def)
qed

text \<open>\<open>d^d\<close> is at least \<open>1/e\<close>, and small for small \<open>d\<close>.\<close>

lemma self_powr_lower:
  fixes d :: real
  assumes "0 < d"
  shows "exp (- 1) \<le> d powr d"
proof -
  have "ln (1 / d) \<le> 1 / d - 1" using assms by (intro ln_le_minus_one) simp
  then have "1 - 1 / d \<le> ln d" using assms by (simp add: ln_div)
  then have "d * (1 - 1 / d) \<le> d * ln d" using assms by (intro mult_left_mono) simp_all
  moreover have "d * (1 - 1 / d) = d - 1" using assms by (simp add: field_simps)
  ultimately have "- 1 \<le> d * ln d" using assms by simp
  then show ?thesis using assms by (simp add: powr_def)
qed

lemma self_powr_upper:
  fixes d :: real
  assumes "0 < d" and "d \<le> 128"
  shows "d powr d \<le> 2 ^ 896"
proof (cases "d \<le> 1")
  case True
  then have "d powr d \<le> 1" using assms by (simp add: powr_le1)
  moreover have "(1::real) \<le> 2 ^ 896" by simp
  ultimately show ?thesis by (rule order_trans)
next
  case False
  then have d1: "1 \<le> d" by simp
  have "d powr d \<le> 128 powr d" using assms by (intro powr_mono2) simp_all
  also have "\<dots> \<le> 128 powr 128" using assms by (intro powr_mono) simp_all
  also have "\<dots> = 2 ^ 896" by simp
  finally show ?thesis .
qed

lemma self_powr_above_underflow:
  fixes d :: real
  assumes "0 < d"
  shows "underflow_threshold < d powr d"
proof -
  have "in_float_range (exp (- 1))"
    using exp_neg_in_float_range [of 1] by simp
  then have "underflow_threshold < exp (- 1)"
    by (simp add: in_float_range_def)
  with self_powr_lower [OF assms] show ?thesis by linarith
qed

text \<open>\<open>pow(d, d)\<close> for a positive \<open>d\<close>: it returns exactly when \<open>d^d\<close> does not overflow.\<close>

lemma py_pow_self:
  fixes d :: real
  assumes "0 < d" and "d powr d < overflow_threshold"
  shows "py_pow d d = Inr (d powr d)"
proof -
  have "0 < d powr d" using assms by simp
  with assms self_powr_above_underflow [OF assms(1)] have "in_float_range (d powr d)"
    by (simp add: in_float_range_def)
  with assms(1) show ?thesis by (rule py_pow_pos)
qed

lemma py_pow_self_returns:
  fixes d :: real
  assumes "0 < d" and "py_pow d d = Inr p"
  shows "p = d powr d" and "d powr d < overflow_threshold"
proof -
  from assms have t: "to_float (d powr d) = Inr p"
    by (simp add: py_pow_def)
  have pos: "0 < d powr d" using assms by simp
  from to_float_eq_Inr [OF t] pos show "d powr d < overflow_threshold"
    by simp
  from to_float_eq_Inr [OF t] pos self_powr_above_underflow [OF assms(1)] show "p = d powr d"
    by (simp add: underflow_def)
qed

text \<open>Where \<open>pow(d, d)\<close> does not overflow, \<open>math.exp(-d)\<close> does not underflow.\<close>

lemma math_exp_neg:
  fixes d :: real
  assumes "0 < d" and "d powr d < overflow_threshold"
  shows "math_exp (- d) = Inr (exp (- d))"
proof (cases "d \<le> 128")
  case True
  with assms show ?thesis
    by (simp add: math_exp_in_range exp_neg_in_float_range)
next
  case False
  then have big: "128 < d" by simp
  have "exp 1 \<le> (3::real)" by (rule exp_le)
  also have "\<dots> < d" using big by simp
  finally have "ln (exp 1) < ln d"
    using assms(1) by (subst ln_less_cancel_iff) simp_all
  then have "1 < ln d" by simp
  then have "d * 1 < d * ln d"
    using assms(1) by (intro mult_strict_left_mono) simp_all
  then have "exp d < d powr d"
    using assms(1) by (simp add: powr_def)
  also note assms(2)
  also note overflow_threshold_bounds(3)
  finally have "exp d < 2 ^ 1024" .
  then have "1 / 2 ^ 1024 < 1 / exp d"
    by (simp add: field_simps)
  also have "1 / exp d = exp (- d)"
    by (simp add: exp_minus inverse_eq_divide)
  finally have "1 / 2 ^ 1024 < exp (- d)" .
  with underflow_threshold_bounds(2) have lo: "underflow_threshold < exp (- d)"
    by (rule less_trans)
  have "exp (- d) \<le> 1" using assms(1) by simp
  then have hi: "exp (- d) < overflow_threshold" using overflow_threshold_bounds(1) by linarith
  from lo hi have "in_float_range (exp (- d))" by (simp add: in_float_range_def)
  then show ?thesis by (rule math_exp_in_range)
qed

text \<open>\<open>pow(10, e)\<close> overflows from \<open>e = 400\<close> on (in fact from about \<open>308.25\<close>).\<close>

lemma ten_powr_overflows:
  fixes e :: real
  assumes "400 \<le> e"
  shows "overflow_threshold \<le> 10 powr e"
proof -
  have "overflow_threshold \<le> 2 ^ 1024"
    by (rule overflow_threshold_bounds)
  also have "(2::real) ^ 1024 = 2 powr 1024"
    by (simp add: powr_realpow [symmetric])
  also have "\<dots> \<le> 2 powr (3 * e)"
    using assms by (intro powr_mono) simp_all
  also have "\<dots> = 8 powr e"
  proof -
    have "((2::real) powr 3) powr e = 2 powr (3 * e)"
      by (rule powr_powr)
    then show ?thesis by simp
  qed
  also have "\<dots> \<le> 10 powr e"
    using assms by (intro powr_mono2) simp_all
  finally show ?thesis .
qed

lemma py_pow_10_overflows: "400 \<le> e \<Longrightarrow> py_pow 10 e = Inl OverflowError"
  using ten_powr_overflows [of e] by (simp add: py_pow_def to_float_def)

subsection \<open>Array helpers\<close>

lemma length_np_and [simp]: "length (np_and c d) = min (length c) (length d)"
  by (simp add: np_and_def)

lemma nth_np_and [simp]:
  "i < length c \<Longrightarrow> i < length d \<Longrightarrow> np_and c d ! i = (c ! i \<and> d ! i)"
  by (simp add: np_and_def)

lemma length_np_where [simp]: "length (np_where c v w) = length c"
  by (simp add: np_where_def)

lemma nth_np_where [simp]:
  "i < length c \<Longrightarrow> np_where c v w ! i = (if c ! i then elem_at v i else elem_at w i)"
  by (simp add: np_where_def)

text \<open>
  Storing \<open>f\<close> of the selected elements back under the same mask updates exactly the
  selected positions.
\<close>

lemma mask_assign_map_select:
  "length idx = length fs \<Longrightarrow> length xs = length fs \<Longrightarrow>
   mask_assign fs idx (map f (mask_select idx xs)) =
     map (\<lambda>(fl, m, x). if m then f x else fl) (zip fs (zip idx xs))"
proof (induction idx arbitrary: fs xs)
  case Nil
  then show ?case by simp
next
  case (Cons m ms)
  then obtain f' fs' x xs' where "fs = f' # fs'" "xs = x # xs'"
    by (cases fs; cases xs) auto
  with Cons show ?case by simp
qed

subsection \<open>uniform\_prior.evaluate\<close>

text \<open>
  Claim C6. For every element \<open>x\<close> of the input, \<^verbatim>\<open>uniform_prior.evaluate\<close> returns
  \<open>value\<close> when \<open>lower_bound \<le> x \<le> upper_bound\<close>, both boundary points included, and
  \<open>0\<close> otherwise; the output has the shape of the input. With bounds \<open>[0, 1]\<close> and value
  \<open>1\<close> it returns \<open>1\<close> at \<open>0.5\<close>, \<open>0\<close> at \<open>-0.5\<close>, and \<open>1\<close> at the boundary
  points \<open>0\<close> and \<open>1\<close>.
\<close>

theorem uniform_prior_evaluate_spec:
  "length (uniform_prior_evaluate x lower_bound upper_bound val) = length x \<and>
   (\<forall>i < length x. uniform_prior_evaluate x lower_bound upper_bound val ! i =
       (if lower_bound \<le> x ! i \<and> x ! i \<le> upper_bound then val else 0)) \<and>
   uniform_prior_evaluate [1 / 2] 0 1 1 = [1] \<and>
   uniform_prior_evaluate [- 1 / 2] 0 1 1 = [0] \<and>
   uniform_prior_evaluate [0] 0 1 1 = [1] \<and>
   uniform_prior_evaluate [1] 0 1 1 = [1]"
  by (simp add: uniform_prior_evaluate_def np_where_def np_and_def)

theorem uniform_prior_evaluate_spec_witness:
  "(1::nat) < length [- 1, 0, 1 / 2, 1, 3 :: real] \<and>
   uniform_prior_evaluate [- 1, 0, 1 / 2, 1, 3] 0 1 7 ! 1 = 7"
  using uniform_prior_evaluate_spec [of "[- 1, 0, 1 / 2, 1, 3]" 0 1 7]
  by simp

subsection \<open>log\_uniform\_prior.evaluate\<close>

text \<open>
  Claim C7. With \<open>lower_bound \<ge> 0\<close>, for every element \<open>x\<close> of the input,
  \<^verbatim>\<open>log_uniform_prior.evaluate\<close> returns \<open>1/x\<close> when
  \<open>lower_bound < x < upper_bound\<close> strictly, and \<open>0\<close> when \<open>x \<le> lower_bound\<close> or
  \<open>x \<ge> upper_bound\<close>, both boundary points excluded. With bounds \<open>[0, 100]\<close> it returns
  \<open>0.02\<close> at \<open>50\<close> and \<open>0\<close> at \<open>200\<close>, at \<open>0\<close> and at \<open>100\<close>.
\<close>

theorem log_uniform_prior_evaluate_spec:
  assumes "0 \<le> lower_bound"
  shows "length (log_uniform_prior_evaluate x lower_bound upper_bound) = length x \<and>
   (\<forall>i < length x. log_uniform_prior_evaluate x lower_bound upper_bound ! i =
       (if lower_bound < x ! i \<and> x ! i < upper_bound then Some (1 / x ! i) else Some 0)) \<and>
   log_uniform_prior_evaluate [50] 0 100 = [Some (2 / 100)] \<and>
   log_uniform_prior_evaluate [200] 0 100 = [Some 0] \<and>
   log_uniform_prior_evaluate [0] 0 100 = [Some 0] \<and>
   log_uniform_prior_evaluate [100] 0 100 = [Some 0]"
  using assms
  by (auto simp add: log_uniform_prior_evaluate_def np_where_def np_and_def np_div_def)

theorem log_uniform_prior_evaluate_spec_witness:
  "(0::real) \<le> 2 \<and> (1::nat) < length [2, 4, 100 :: real] \<and>
   log_uniform_prior_evaluate [2, 4, 100] 2 100 ! 1 = Some (1 / 4) \<and>
   log_uniform_prior_evaluate [2, 4, 100] 2 100 ! 0 = Some 0"
proof -
  have h: "(0::real) \<le> 2" by simp
  show ?thesis
    using log_uniform_prior_evaluate_spec [OF h, of "[2, 4, 100]" 100] by simp
qed

subsection \<open>Unit assignment of bias and synchrotron\<close>

text \<open>
  Claim C5. \<^verbatim>\<open>bias._set_units\<close> raises InvalidUsageForFunction if and only if
  \<open>x_unit \<noteq> y_unit\<close>, and succeeds otherwise. \<^verbatim>\<open>synchrotron._set_units\<close> raises
  InvalidUsageForFunction whenever \<open>x_unit\<close> is not an energy unit, and also when
  \<open>y_unit\<close> is not a differential photon flux, and succeeds otherwise. The units library
  is assumed to decompose a unit into a unit (an object with a physical type).
\<close>

theorem set_units_usage_errors:
  assumes "\<forall>u. physical_type ap u \<noteq> None \<longrightarrow> physical_type ap (decompose ap u) \<noteq> None"
  shows "(fst (bias_set_units self x_unit y_unit) = Inl InvalidUsageForFunction \<longleftrightarrow> x_unit \<noteq> y_unit) \<and>
    (fst (bias_set_units self x_unit y_unit) = Inr () \<longleftrightarrow> x_unit = y_unit) \<and>
    synchrotron_set_units ap cu x_unit y_unit =
      (if is_energy ap x_unit \<and> is_differential_flux ap cu y_unit then Inr ()
       else Inl InvalidUsageForFunction)"
proof -
  have b: "fst (bias_set_units self x_unit y_unit) = Inl InvalidUsageForFunction \<longleftrightarrow> x_unit \<noteq> y_unit"
    by (simp add: bias_set_units_def Let_def)
  have b': "fst (bias_set_units self x_unit y_unit) = Inr () \<longleftrightarrow> x_unit = y_unit"
    by (simp add: bias_set_units_def Let_def)
  have s: "synchrotron_set_units ap cu x_unit y_unit =
      (if is_energy ap x_unit \<and> is_differential_flux ap cu y_unit then Inr ()
       else Inl InvalidUsageForFunction)"
  proof (cases "physical_type ap (should_be_unitless ap cu y_unit)")
    case None
    then show ?thesis
      by (simp add: synchrotron_set_units_def is_energy_def is_differential_flux_def
          should_be_unitless_def Let_def)
  next
    case (Some t)
    then have "physical_type ap (decompose ap (should_be_unitless ap cu y_unit)) \<noteq> None"
      using assms by simp
    then obtain d where "physical_type ap (decompose ap (should_be_unitless ap cu y_unit)) = Some d"
      by auto
    with Some show ?thesis
      by (simp add: synchrotron_set_units_def is_energy_def is_differential_flux_def
          should_be_unitless_def Let_def)
  qed
  from b b' s show ?thesis by blast
qed

theorem set_units_usage_errors_witness:
  "(\<forall>u. physical_type toy_units u = None \<or>
        (\<exists>t. physical_type toy_units (decompose toy_units u) = Some t)) \<and>
   synchrotron_set_units toy_units toy_system ''energy'' ''flux'' = Inr () \<and>
   synchrotron_set_units toy_units toy_system ''time'' ''flux'' = Inl InvalidUsageForFunction \<and>
   synchrotron_set_units toy_units toy_system ''energy'' ''time'' = Inl InvalidUsageForFunction \<and>
   fst (bias_set_units \<lparr>k_value = 0, k_unit = ''keV''\<rparr> ''energy'' ''flux'')
     = Inl InvalidUsageForFunction"
proof -
  have h: "\<forall>u. physical_type toy_units u \<noteq> None \<longrightarrow>
      physical_type toy_units (decompose toy_units u) \<noteq> None"
    by (simp add: toy_units_def)
  have 1: "synchrotron_set_units toy_units toy_system ''energy'' ''flux'' = Inr ()"
    using set_units_usage_errors [OF h, where cu = toy_system and x_unit = "''energy''"
        and y_unit = "''flux''"]
    by (simp add: is_energy_def is_differential_flux_def should_be_unitless_def toy_units_def
        toy_system_def)
  have 2: "synchrotron_set_units toy_units toy_system ''time'' ''flux'' = Inl InvalidUsageForFunction"
    using set_units_usage_errors [OF h, where cu = toy_system and x_unit = "''time''"
        and y_unit = "''flux''"]
    by (simp add: is_energy_def is_differential_flux_def should_be_unitless_def toy_units_def
        toy_system_def)
  have 3: "synchrotron_set_units toy_units toy_system ''energy'' ''time'' = Inl InvalidUsageForFunction"
    using set_units_usage_errors [OF h, where cu = toy_system and x_unit = "''energy''"
        and y_unit = "''time''"]
    by (simp add: is_energy_def is_differential_flux_def should_be_unitless_def toy_units_def
        toy_system_def)
  have 4: "fst (bias_set_units \<lparr>k_value = 0, k_unit = ''keV''\<rparr> ''energy'' ''flux'')
     = Inl InvalidUsageForFunction"
    using set_units_usage_errors [OF h, where self = "\<lparr>k_value = 0, k_unit = ''keV''\<rparr>"
        and x_unit = "''energy''" and y_unit = "''flux''"]
    by simp
  have h': "\<forall>u. physical_type toy_units u = None \<or>
      (\<exists>t. physical_type toy_units (decompose toy_units u) = Some t)"
    by (simp add: toy_units_def)
  from h' 1 2 3 4 show ?thesis by blast
qed

text \<open>
  Claim C9. When \<^verbatim>\<open>bias._set_units\<close> is called with \<open>x_unit \<noteq> y_unit\<close>, the unit of
  the parameter \<open>k\<close> has already been set to \<open>x_unit\<close> when the usage error is raised:
  the failing call leaves a state that differs from the one it started in unless the
  unit of \<open>k\<close> was \<open>x_unit\<close> already.
\<close>

theorem bias_set_units_not_atomic:
  assumes "x_unit \<noteq> y_unit"
  shows "bias_set_units self x_unit y_unit =
           (Inl InvalidUsageForFunction, self\<lparr>k_unit := x_unit\<rparr>) \<and>
         k_unit (snd (bias_set_units self x_unit y_unit)) = x_unit \<and>
         (snd (bias_set_units self x_unit y_unit) = self \<longleftrightarrow> k_unit self = x_unit)"
  using assms by (cases self) (auto simp add: bias_set_units_def Let_def)

theorem bias_set_units_not_atomic_witness:
  "''s'' \<noteq> ''keV'' \<and>
   bias_set_units \<lparr>k_value = 0, k_unit = ''keV''\<rparr> ''s'' ''keV'' =
     (Inl InvalidUsageForFunction, \<lparr>k_value = 0, k_unit = ''s''\<rparr>) \<and>
   snd (bias_set_units \<lparr>k_value = 0, k_unit = ''keV''\<rparr> ''s'' ''keV'') \<noteq>
     \<lparr>k_value = 0, k_unit = ''keV''\<rparr>"
proof -
  have h: "''s'' \<noteq> ''keV''" by simp
  show ?thesis
    using bias_set_units_not_atomic [OF h, of "\<lparr>k_value = 0, k_unit = ''keV''\<rparr>"] by simp
qed

subsection \<open>log\_parabola.peak\_energy\<close>

text \<open>
  Claim C8, as amended. The \<^verbatim>\<open>peak_energy\<close> accessor of \<^verbatim>\<open>log_parabola\<close> never
  modifies a parameter. Under the preconditions \<open>beta \<noteq> 0\<close> and
  \<open>10^((2+alpha)/(2 beta))\<close> in the float range, it returns exactly
  \<open>piv \<cdot> 10^((2+alpha)/(2 beta))\<close>, computed from the current parameter values.
\<close>

theorem peak_energy_value:
  "snd (peak_energy self) = self \<and>
   (beta_value self \<noteq> 0 \<and>
    in_float_range (10 powr ((2 + alpha_value self) / (2 * beta_value self))) \<longrightarrow>
      peak_energy self =
        (Inr (piv_value self * 10 powr ((2 + alpha_value self) / (2 * beta_value self))), self))"
proof (intro conjI impI)
  show "snd (peak_energy self) = self"
    by (simp add: peak_energy_def)
next
  assume h: "beta_value self \<noteq> 0 \<and>
    in_float_range (10 powr ((2 + alpha_value self) / (2 * beta_value self)))"
  let ?e = "(2 + alpha_value self) / (2 * beta_value self)"
  from h have p: "py_pow 10 ?e = Inr (10 powr ?e)"
    by (simp add: py_pow_pos)
  from h show "peak_energy self = (Inr (piv_value self * 10 powr ?e), self)"
    by (simp add: peak_energy_def py_div_def p)
qed

theorem peak_energy_value_witness:
  "beta_value \<lparr>K_value = 1, piv_value = 3, alpha_value = 0, beta_value = 1\<rparr> \<noteq> 0 \<and>
   in_float_range (10 powr ((2 + 0) / (2 * 1))) \<and>
   peak_energy \<lparr>K_value = 1, piv_value = 3, alpha_value = 0, beta_value = 1\<rparr> =
     (Inr 30, \<lparr>K_value = 1, piv_value = 3, alpha_value = 0, beta_value = 1\<rparr>)"
proof -
  have r: "in_float_range (10 powr ((2 + 0) / (2 * 1)))"
    by (simp add: in_float_range_def underflow_threshold_def overflow_threshold_def)
  show ?thesis
    using peak_energy_value [of "\<lparr>K_value = 1, piv_value = 3, alpha_value = 0, beta_value = 1\<rparr>"] r
    by simp
qed

text \<open>
  The claim as first stated asks for \<open>beta \<noteq> 0\<close> only. It fails for a small curvature:
  with \<open>alpha = 0\<close> and \<open>beta = 0.001\<close> the exponent is \<open>1000\<close>, and \<open>pow(10, 1000.0)\<close>
  raises OverflowError.
\<close>

theorem peak_energy_overflow_counterexample:
  "beta_value \<lparr>K_value = 1, piv_value = 1, alpha_value = 0, beta_value = 1 / 1000\<rparr> \<noteq> 0 \<and>
   peak_energy \<lparr>K_value = 1, piv_value = 1, alpha_value = 0, beta_value = 1 / 1000\<rparr> =
     (Inl OverflowError,
      \<lparr>K_value = 1, piv_value = 1, alpha_value = 0, beta_value = 1 / 1000\<rparr>)"
proof -
  have "\<not> overflow_threshold \<le> 1000"
    by (simp add: overflow_threshold_def)
  then show ?thesis
    by (simp add: peak_energy_def py_div_def py_pow_10_overflows)
qed

text \<open>Without the precondition on \<open>beta\<close> the division by \<open>2 beta\<close> fails.\<close>

lemma peak_energy_beta_zero:
  "beta_value self = 0 \<Longrightarrow> peak_energy self = (Inl ZeroDivisionError, self)"
  by (simp add: peak_energy_def py_div_def)

subsection \<open>band: the power-law integral\<close>

text \<open>
  Claim C3, as amended. For \<open>a > b\<close>, \<open>Ec > 0\<close>, \<open>Emin > 0\<close> and \<open>Emax > 0\<close>, with
  every power and exponential that the function computes in the float range (and, for
  \<open>b = -2\<close>, a quotient \<open>Emax / Emin\<close> that does not underflow),
  \<^verbatim>\<open>band.ggrb_int_pl(a, b, Ec, Emin, Emax)\<close> returns the polynomial antiderivative
  \<open>pre/(2+b) (Emax^(2+b) - Emin^(2+b))\<close> for every exponent \<open>b \<noteq> -2\<close>, and for
  \<open>b = -2\<close> exactly the logarithmic form \<open>pre log(Emax/Emin)\<close>, where
  \<open>pre = (a-b)^(a-b) exp(b-a) / Ec^b\<close>.
\<close>

theorem ggrb_int_pl_closed_form:
  assumes "b < a" and "0 < Ec" and "0 < Emin" and "0 < Emax"
    and "in_float_range ((a - b) powr (a - b))"
    and "in_float_range (exp (b - a))"
    and "in_float_range (Ec powr b)"
    and "b \<noteq> - 2 \<longrightarrow>
           in_float_range (Emax powr (2 + b)) \<and> in_float_range (Emin powr (2 + b))"
    and "b = - 2 \<longrightarrow> underflow_threshold < Emax / Emin"
  shows "ggrb_int_pl a b Ec Emin Emax = Inr (ggrb_int_pl_spec a b Ec Emin Emax)"
proof -
  have p1: "py_pow (a - b) (a - b) = Inr ((a - b) powr (a - b))"
    using assms(1,5) by (simp add: py_pow_pos)
  have ex: "math_exp (b - a) = Inr (exp (b - a))"
    using assms(6) by (rule math_exp_in_range)
  have p2: "py_pow Ec b = Inr (Ec powr b)"
    using assms(2,7) by (simp add: py_pow_pos)
  have nz: "Ec powr b \<noteq> 0"
    using assms(2) by simp
  show ?thesis
  proof (cases "b = - 2")
    case False
    with assms(8) have "in_float_range (Emax powr (2 + b))" "in_float_range (Emin powr (2 + b))"
      by simp_all
    then have "py_pow Emax (2 + b) = Inr (Emax powr (2 + b))"
      "py_pow Emin (2 + b) = Inr (Emin powr (2 + b))"
      using assms(3,4) by (simp_all add: py_pow_pos)
    with False p1 ex p2 nz show ?thesis
      by (simp add: ggrb_int_pl_def ggrb_int_pl_spec_def py_div_def Let_def)
  next
    case True
    with assms(9) have q: "underflow_threshold < Emax / Emin"
      by simp
    have r: "0 < Emax / Emin"
      using assms(3,4) by simp
    then have "\<bar>Emax / Emin\<bar> = Emax / Emin"
      by (rule abs_of_pos)
    with q have u: "underflow (Emax / Emin) = Emax / Emin"
      unfolding underflow_def by simp
    from r have pos: "\<not> Emax / Emin \<le> 0"
      by simp
    from assms(3) True p1 ex p2 nz u pos show ?thesis
      by (simp add: ggrb_int_pl_def ggrb_int_pl_spec_def py_div_def math_log_def Let_def)
  qed
qed

theorem ggrb_int_pl_closed_form_witness:
  "((0::real) < 1 \<and> (0::real) < 1 \<and> (0::real) < 1 \<and> (0::real) < 2) \<and>
   in_float_range ((1 - 0) powr (1 - 0)) \<and> in_float_range (exp (0 - 1)) \<and>
   in_float_range (1 powr 0) \<and>
   in_float_range (2 powr (2 + 0)) \<and> in_float_range (1 powr (2 + 0)) \<and>
   ggrb_int_pl 1 0 1 1 2 = Inr (exp (- 1) / 2 * 3) \<and>
   (- 2::real) < 0 \<and>
   in_float_range ((0 - - 2) powr (0 - - 2)) \<and> in_float_range (exp (- 2 - 0)) \<and>
   in_float_range (1 powr - 2) \<and> underflow_threshold < 2 / 1 \<and>
   ggrb_int_pl 0 (- 2) 1 1 2 = Inr (4 * exp (- 2) * ln 2)"
proof -
  have e1: "in_float_range (exp (0 - 1))"
    using exp_neg_in_float_range [of 1] by simp
  have e2: "in_float_range (exp (- 2 - 0))"
    using exp_neg_in_float_range [of 2] by simp
  have n: "in_float_range ((1 - 0) powr (1 - 0))" "in_float_range (1 powr 0)"
    "in_float_range (2 powr (2 + 0))" "in_float_range (1 powr (2 + 0))"
    "in_float_range ((0 - - 2) powr (0 - - 2))" "in_float_range (1 powr - 2)"
    by (simp_all add: in_float_range_numerals)
  have u: "underflow_threshold < 2 / 1"
    using underflow_threshold_bounds by simp
  have 1: "ggrb_int_pl 1 0 1 1 2 = Inr (exp (- 1) / 2 * 3)"
    using ggrb_int_pl_closed_form [of 0 1 1 1 2] e1 n
    by (simp add: ggrb_int_pl_spec_def)
  have 2: "ggrb_int_pl 0 (- 2) 1 1 2 = Inr (4 * exp (- 2) * ln 2)"
    using ggrb_int_pl_closed_form [of "- 2" 0 1 1 2] e2 n u
    by (simp add: ggrb_int_pl_spec_def)
  from e1 e2 n u 1 2 show ?thesis
    by simp
qed

text \<open>
  The claim as first stated holds for every \<open>b \<noteq> -2\<close>. It fails where a power has no
  value: with \<open>a = -5\<close> and \<open>b = -1.5\<close>, both within the bounds declared for the indices
  of the Band model, \<open>pow(a-b, a-b)\<close> is \<open>pow(-3.5, -3.5)\<close> and raises ValueError.
\<close>

theorem ggrb_int_pl_counterexample:
  "(- 3 / 2 :: real) \<noteq> - 2 \<and> ggrb_int_pl (- 5) (- 3 / 2) 1 1 2 = Inl ValueError"
  by (simp add: ggrb_int_pl_def py_pow_def)

subsection \<open>band: cutoff energy and split energy\<close>


subsection \<open>band.evaluate: the failures\<close>

text \<open>
  Claim C1. For \<^verbatim>\<open>band.evaluate\<close> with \<open>opt = 1\<close>: whenever the split energy
  \<open>Esplit = (alpha - beta) Ec\<close> does not lie in \<open>[a, b]\<close> and is not below \<open>a\<close> (so
  that \<open>Esplit > b\<close>), the call fails with RuntimeError and returns no value. With
  \<open>opt = 1\<close> this is the only way in which RuntimeError is raised.
\<close>

theorem band_evaluate_esplit_above_band:
  assumes "band_Ec alpha xp = Inr Ec"
    and "Esplit = band_Esplit alpha beta Ec"
  shows "(\<not> (a \<le> Esplit \<and> Esplit \<le> b) \<and> \<not> Esplit < a \<longrightarrow>
            band_evaluate sp x alpha beta xp F a b 1 = Inl RuntimeError \<and>
            (\<forall>r. band_evaluate sp x alpha beta xp F a b 1 \<noteq> Inr r) \<and> b < Esplit) \<and>
         (band_evaluate sp x alpha beta xp F a b 1 = Inl RuntimeError \<longrightarrow>
            \<not> (a \<le> Esplit \<and> Esplit \<le> b) \<and> \<not> Esplit < a)"
proof -
  have fails: "band_evaluate sp x alpha beta xp F a b 1 = Inl RuntimeError \<and>
      (\<forall>r. band_evaluate sp x alpha beta xp F a b 1 \<noteq> Inr r) \<and> b < Esplit"
    if h: "\<not> (a \<le> Esplit \<and> Esplit \<le> b) \<and> \<not> Esplit < a"
  proof -
    from h assms have e: "band_evaluate sp x alpha beta xp F a b 1 = Inl RuntimeError"
      by (simp add: band_evaluate_def band_intflux_def)
    from h have "b < Esplit"
      by auto
    with e show ?thesis
      by simp
  qed
  have only: "\<not> (a \<le> Esplit \<and> Esplit \<le> b) \<and> \<not> Esplit < a"
    if r: "band_evaluate sp x alpha beta xp F a b 1 = Inl RuntimeError"
  proof -
    from r assms have "band_intflux sp alpha beta Ec Esplit a b 1 = Inl RuntimeError"
      by (auto simp add: band_evaluate_def Let_def ebind_eq_Inl_iff
          dest: band_norm_error band_flux_error)
    then show ?thesis
      by (auto dest: band_intflux_error)
  qed
  from fails only show ?thesis
    by blast
qed

theorem band_evaluate_esplit_above_band_witness:
  "band_Ec 0 2 = Inr 1 \<and> (1::real) = band_Esplit 0 (- 1) 1 \<and>
   \<not> ((0::real) \<le> 1 \<and> (1::real) \<le> 1 / 2) \<and> \<not> (1::real) < 0 \<and>
   band_evaluate no_special [1 / 4, 3] 0 (- 1) 2 1 0 (1 / 2) 1 = Inl RuntimeError"
proof -
  have 1: "band_Ec 0 2 = Inr 1"
    by (simp add: band_Ec_value)
  have 2: "(1::real) = band_Esplit 0 (- 1) 1"
    by (simp add: band_Esplit_def)
  show ?thesis
    using band_evaluate_esplit_above_band [OF 1 2, of 0 "1 / 2" no_special "[1 / 4, 3]" 1] 1 2
    by simp
qed

text \<open>
  When the band is given with \<open>a > b\<close>, a split energy between the two is above \<open>b\<close>
  and below \<open>a\<close>: the code takes the power-law branch and raises no RuntimeError.
\<close>

lemma band_evaluate_esplit_between:
  assumes "band_Ec alpha xp = Inr Ec" and "Esplit = band_Esplit alpha beta Ec"
    and "b < Esplit" and "Esplit < a"
  shows "band_evaluate sp x alpha beta xp F a b 1 \<noteq> Inl RuntimeError"
proof
  assume "band_evaluate sp x alpha beta xp F a b 1 = Inl RuntimeError"
  with assms(1,2) have "band_intflux sp alpha beta Ec Esplit a b 1 = Inl RuntimeError"
    by (auto simp add: band_evaluate_def Let_def ebind_eq_Inl_iff
        dest: band_norm_error band_flux_error)
  with assms(4) show False
    by (auto dest: band_intflux_error)
qed

text \<open>
  Claim C10. \<^verbatim>\<open>band.evaluate\<close> asserts \<open>opt == 0 or opt == 1\<close> at entry: for every
  \<open>opt\<close> other than \<open>0\<close> and \<open>1\<close> it fails with AssertionError, whatever the other
  arguments are; for \<open>opt\<close> in \<open>{0, 1}\<close> the assertion never fires.
\<close>

theorem band_evaluate_opt_assertion:
  "(opt \<noteq> 0 \<and> opt \<noteq> 1 \<longrightarrow> band_evaluate sp x alpha beta xp F a b opt = Inl AssertionError) \<and>
   (opt = 0 \<or> opt = 1 \<longrightarrow> band_evaluate sp x alpha beta xp F a b opt \<noteq> Inl AssertionError)"
proof (intro conjI impI)
  assume "opt \<noteq> 0 \<and> opt \<noteq> 1"
  then show "band_evaluate sp x alpha beta xp F a b opt = Inl AssertionError"
    by (simp add: band_evaluate_def)
next
  assume "opt = 0 \<or> opt = 1"
  then show "band_evaluate sp x alpha beta xp F a b opt \<noteq> Inl AssertionError"
    by (auto simp add: band_evaluate_def band_Ec_value ebind_eq_Inl_iff Let_def
        dest: band_intflux_error band_norm_error band_flux_error)
qed

theorem band_evaluate_opt_assertion_witness:
  "((2::real) \<noteq> 0 \<and> (2::real) \<noteq> 1) \<and>
   band_evaluate no_special [1] (- 1) (- 2) 200 1 1 10000 2 = Inl AssertionError \<and>
   ((1::real) = 0 \<or> (1::real) = 1) \<and>
   band_evaluate no_special [1] (- 1) (- 2) 200 1 1 10000 1 \<noteq> Inl AssertionError"
proof -
  have 1: "band_evaluate no_special [1] (- 1) (- 2) 200 1 1 10000 2 = Inl AssertionError"
    using band_evaluate_opt_assertion [of 2 no_special "[1]" "- 1" "- 2" 200 1 1 10000]
    by simp
  have 2: "band_evaluate no_special [1] (- 1) (- 2) 200 1 1 10000 1 \<noteq> Inl AssertionError"
    using band_evaluate_opt_assertion [of 1 no_special "[1]" "- 1" "- 2" 200 1 1 10000]
    by simp
  from 1 2 show ?thesis by simp
qed

subsection \<open>band.evaluate: the join of the two branches\<close>

text \<open>With \<open>opt \<noteq> 0\<close> every element is computed by the branch on its side of \<open>Esplit\<close>.\<close>

lemma band_flux_band:
  assumes "opt \<noteq> 0" and "py_pow (alpha - beta) (alpha - beta) = Inr p"
    and "math_exp (beta - alpha) = Inr ex"
  shows "band_flux x alpha beta Ec Esplit nrm opt =
     Inr (map (\<lambda>xi. if xi < Esplit then band_low nrm Ec alpha xi
                     else band_high nrm p ex Ec alpha beta xi) x)"
proof -
  have "mask_assign
          (mask_assign (map (\<lambda>_. Some 0) x) (map (\<lambda>xi. xi < Esplit) x)
             (map (band_low nrm Ec alpha) (mask_select (map (\<lambda>xi. xi < Esplit) x) x)))
          (map Not (map (\<lambda>xi. xi < Esplit) x))
          (map (band_high nrm p ex Ec alpha beta)
             (mask_select (map Not (map (\<lambda>xi. xi < Esplit) x)) x))
        = map (\<lambda>xi. if xi < Esplit then band_low nrm Ec alpha xi
                     else band_high nrm p ex Ec alpha beta xi) x"
    by (simp add: mask_assign_map_select) (induction x; simp)
  with assms show ?thesis
    by (simp add: band_flux_def Let_def)
qed

lemma band_low_pos:
  assumes "0 < Ec" and "0 < xi"
  shows "band_low (Some n) Ec alpha xi = Some (n * (xi / Ec) powr alpha * exp (- xi / Ec))"
proof -
  have "0 < xi / Ec" using assms by simp
  then show ?thesis
    using assms
    by (simp add: band_low_def np_mul_def np_lift2_def np_power_pos np_div_nonzero np_exp_def
        np_neg_def)
qed

lemma band_high_pos:
  assumes "0 < Ec" and "0 < xi"
  shows "band_high (Some n) p ex Ec alpha beta xi = Some (n * p * ex * (xi / Ec) powr beta)"
proof -
  have "0 < xi / Ec" using assms by simp
  then show ?thesis
    using assms
    by (simp add: band_high_def np_mul_def np_lift2_def np_power_pos np_div_nonzero)
qed

lemma band_None:
  "band_low None Ec alpha xi = None" "band_high None p ex Ec alpha beta xi = None"
  by (simp_all add: band_low_def band_high_def np_mul_def np_lift2_def)

text \<open>The algebra behind the amplitude of the high-energy branch.\<close>

lemma join_identity:
  fixes d :: real
  assumes "0 < d"
  shows "d powr alpha * exp (- d) = d powr d * exp (- d) * d powr (alpha - d)"
proof -
  have "d powr d * d powr (alpha - d) = d powr alpha"
    by (simp add: powr_add [symmetric])
  then show ?thesis by (simp add: mult.commute mult.left_commute)
qed

lemma band_branches_equal:
  assumes "beta < alpha" and "0 < Ec"
  shows "band_low nrm Ec alpha (band_Esplit alpha beta Ec) =
     band_high nrm ((alpha - beta) powr (alpha - beta)) (exp (beta - alpha)) Ec alpha beta
       (band_Esplit alpha beta Ec)"
    and "band_low (Some n) Ec alpha (band_Esplit alpha beta Ec) =
     Some (n * (alpha - beta) powr alpha * exp (- (alpha - beta)))"
proof -
  let ?d = "alpha - beta"
  let ?E = "band_Esplit alpha beta Ec"
  have d: "0 < ?d" using assms by simp
  have E: "0 < ?E" using assms d by (simp add: band_Esplit_def)
  have q: "?E / Ec = ?d" using assms by (simp add: band_Esplit_def)
  show lo: "band_low (Some n) Ec alpha ?E = Some (n * ?d powr alpha * exp (- ?d))" for n
    using band_low_pos [OF assms(2) E, of n alpha] q by (simp add: divide_inverse)
  show "band_low nrm Ec alpha ?E =
      band_high nrm (?d powr ?d) (exp (beta - alpha)) Ec alpha beta ?E"
  proof (cases nrm)
    case None
    then show ?thesis by (simp add: band_None)
  next
    case (Some n)
    have hi: "band_high (Some n) (?d powr ?d) (exp (beta - alpha)) Ec alpha beta ?E =
        Some (n * ?d powr ?d * exp (- ?d) * ?d powr beta)"
      using band_high_pos [OF assms(2) E, of n "?d powr ?d" "exp (beta - alpha)" alpha beta] q
      by simp
    have "?d powr alpha * exp (- ?d) = ?d powr ?d * exp (- ?d) * ?d powr (alpha - ?d)"
      using d by (rule join_identity)
    then have "n * ?d powr alpha * exp (- ?d) = n * ?d powr ?d * exp (- ?d) * ?d powr beta"
      by (simp add: mult.assoc)
    with lo [of n] hi Some show ?thesis by simp
  qed
qed

text \<open>Two functions that are continuous at a point and agree there can be joined there.\<close>

lemma isCont_if_join:
  fixes f g :: "real \<Rightarrow> real"
  assumes "isCont f a" and "isCont g a" and "f a = g a"
  shows "isCont (\<lambda>x. if P x then f x else g x) a"
proof -
  have f: "(f \<longlongrightarrow> g a) (at a)" using assms by (simp add: isCont_def)
  have g: "(g \<longlongrightarrow> g a) (at a)" using assms by (simp add: isCont_def)
  have "((\<lambda>x. if P x then f x else g x) \<longlongrightarrow> g a) (at a)"
    by (rule filterlim_If) (rule tendsto_mono [OF inf_le1 f], rule tendsto_mono [OF inf_le1 g])
  then show ?thesis using assms by (simp add: isCont_def)
qed

lemma band_join_continuous:
  fixes n Ec alpha beta :: real
  assumes "beta < alpha" and "0 < Ec"
  defines "E \<equiv> (alpha - beta) * Ec"
  defines "P \<equiv> (alpha - beta) powr (alpha - beta) * exp (beta - alpha)"
  shows "isCont (\<lambda>x. if x < E then n * (x / Ec) powr alpha * exp (- x / Ec)
                      else n * P * (x / Ec) powr beta) E"
proof (rule isCont_if_join)
  have q: "E / Ec = alpha - beta" using assms by simp
  have pos: "E / Ec \<noteq> 0" using assms by simp
  show "isCont (\<lambda>x. n * (x / Ec) powr alpha * exp (- x / Ec)) E"
    using pos by (intro continuous_intros) auto
  show "isCont (\<lambda>x. n * P * (x / Ec) powr beta) E"
    using pos by (intro continuous_intros) auto
  have d: "0 < alpha - beta" using assms by simp
  have "(alpha - beta) powr alpha * exp (- (alpha - beta)) =
        (alpha - beta) powr (alpha - beta) * exp (- (alpha - beta)) *
          (alpha - beta) powr (alpha - (alpha - beta))"
    using d by (rule join_identity)
  then show "n * (E / Ec) powr alpha * exp (- E / Ec) = n * P * (E / Ec) powr beta"
    using q by (simp add: P_def divide_inverse [symmetric] mult.assoc)
qed

text \<open>
  The output of the evaluation stage, as a function of one coordinate, is continuous at
  the split energy.
\<close>

lemma band_output_continuous:
  fixes n Ec alpha beta :: real
  assumes "beta < alpha" and "0 < Ec" and "0 < eps"
    and p: "py_pow (alpha - beta) (alpha - beta) = Inr ((alpha - beta) powr (alpha - beta))"
    and ex: "math_exp (beta - alpha) = Inr (exp (beta - alpha))"
  defines "E \<equiv> band_Esplit alpha beta Ec"
  shows "\<exists>delta>0. \<forall>xi. \<bar>xi - E\<bar> < delta \<longrightarrow>
     (\<exists>y y0. band_flux [xi] alpha beta Ec E (Some n) 1 = Inr [Some y] \<and>
              band_flux [E] alpha beta Ec E (Some n) 1 = Inr [Some y0] \<and> \<bar>y - y0\<bar> < eps)"
proof -
  let ?d = "alpha - beta"
  let ?P = "?d powr ?d * exp (beta - alpha)"
  let ?h = "\<lambda>x. if x < E then n * (x / Ec) powr alpha * exp (- x / Ec)
                  else n * ?P * (x / Ec) powr beta"
  have d: "0 < ?d" using assms by simp
  have E: "0 < E" using assms d by (simp add: band_Esplit_def)
  have out: "band_flux [x] alpha beta Ec E (Some n) 1 = Inr [Some (?h x)]" if "0 < x" for x
    using band_flux_band [OF _ p ex, of 1 "[x]" Ec E "Some n"] that assms(2)
    by (simp add: band_low_pos band_high_pos mult.assoc)
  have "isCont ?h E"
    using band_join_continuous [OF assms(1,2), of n] by (simp add: E_def band_Esplit_def)
  then have "\<exists>s>0. \<forall>x. x \<noteq> E \<and> \<bar>x - E\<bar> < s \<longrightarrow> \<bar>?h x - ?h E\<bar> < eps"
    using assms(3) unfolding isCont_def LIM_def dist_real_def by blast
  then obtain s where s: "0 < s" "\<And>x. x \<noteq> E \<Longrightarrow> \<bar>x - E\<bar> < s \<Longrightarrow> \<bar>?h x - ?h E\<bar> < eps"
    by blast
  have close: "\<bar>?h x - ?h E\<bar> < eps" if "\<bar>x - E\<bar> < s" for x
  proof (cases "x = E")
    case True
    then show ?thesis using assms(3) by simp
  next
    case False
    then show ?thesis using s(2) that by blast
  qed
  show ?thesis
  proof (rule exI [of _ "min s E"], intro conjI allI impI)
    show "0 < min s E" using s(1) E by simp
  next
    fix xi assume a: "\<bar>xi - E\<bar> < min s E"
    then have "0 < xi" and "\<bar>xi - E\<bar> < s" by auto
    then show "\<exists>y y0. band_flux [xi] alpha beta Ec E (Some n) 1 = Inr [Some y] \<and>
              band_flux [E] alpha beta Ec E (Some n) 1 = Inr [Some y0] \<and> \<bar>y - y0\<bar> < eps"
      using out [of xi] out [OF E] close [of xi] by blast
  qed
qed

text \<open>
  Claim C2. For \<^verbatim>\<open>band.evaluate\<close> with \<open>opt = 1\<close> and any parameters with
  \<open>alpha > beta\<close>, \<open>Ec > 0\<close> and \<open>a \<le> Esplit \<le> b\<close>: at \<open>x = Esplit = (alpha - beta) Ec\<close>
  the low-energy branch \<open>norm (x/Ec)^alpha exp(-x/Ec)\<close> and the high-energy branch
  \<open>norm (alpha-beta)^(alpha-beta) exp(beta-alpha) (x/Ec)^beta\<close> give equal values, this
  value is what the evaluation stage returns at \<open>Esplit\<close>, and the output is continuous
  at the join. The amplitude \<open>pow(alpha-beta, alpha-beta)\<close> is a Python float: it has a
  value for every \<open>alpha - beta \<le> 128\<close>, which covers the declared bounds of the two
  indices (\<open>alpha \<le> 10\<close>, \<open>beta \<ge> -7\<close>), and wherever it has one, \<open>math.exp(beta-alpha)\<close>
  has one too and the branches agree.
\<close>

theorem band_branches_agree_at_split:
  assumes "beta < alpha" and "0 < Ec"
    and "Esplit = band_Esplit alpha beta Ec"
    and "a \<le> Esplit \<and> Esplit \<le> b"
  shows "(alpha - beta \<le> 128 \<longrightarrow>
        py_pow (alpha - beta) (alpha - beta) = Inr ((alpha - beta) powr (alpha - beta))) \<and>
     (\<forall>p. py_pow (alpha - beta) (alpha - beta) = Inr p \<longrightarrow>
        (\<exists>ex. math_exp (beta - alpha) = Inr ex \<and>
           band_low nrm Ec alpha Esplit = band_high nrm p ex Ec alpha beta Esplit \<and>
           band_flux [Esplit] alpha beta Ec Esplit nrm 1 = Inr [band_low nrm Ec alpha Esplit] \<and>
           (\<forall>n. nrm = Some n \<longrightarrow>
              band_low nrm Ec alpha Esplit =
                Some (n * (alpha - beta) powr alpha * exp (- (alpha - beta))) \<and>
              (\<forall>eps>0. \<exists>delta>0. \<forall>xi. \<bar>xi - Esplit\<bar> < delta \<longrightarrow>
                 (\<exists>y y0. band_flux [xi] alpha beta Ec Esplit nrm 1 = Inr [Some y] \<and>
                          band_flux [Esplit] alpha beta Ec Esplit nrm 1 = Inr [Some y0] \<and>
                          \<bar>y - y0\<bar> < eps)))))"
proof -
  let ?d = "alpha - beta"
  have d: "0 < ?d" using assms by simp
  have small: "py_pow ?d ?d = Inr (?d powr ?d)" if "?d \<le> 128"
  proof -
    have "?d powr ?d \<le> 2 ^ 896" using d that by (rule self_powr_upper)
    with overflow_threshold_bounds(2) have "?d powr ?d < overflow_threshold" by linarith
    with d show ?thesis by (rule py_pow_self)
  qed
  have main: "\<exists>ex. math_exp (beta - alpha) = Inr ex \<and>
           band_low nrm Ec alpha Esplit = band_high nrm p ex Ec alpha beta Esplit \<and>
           band_flux [Esplit] alpha beta Ec Esplit nrm 1 = Inr [band_low nrm Ec alpha Esplit] \<and>
           (\<forall>n. nrm = Some n \<longrightarrow>
              band_low nrm Ec alpha Esplit =
                Some (n * (alpha - beta) powr alpha * exp (- (alpha - beta))) \<and>
              (\<forall>eps>0. \<exists>delta>0. \<forall>xi. \<bar>xi - Esplit\<bar> < delta \<longrightarrow>
                 (\<exists>y y0. band_flux [xi] alpha beta Ec Esplit nrm 1 = Inr [Some y] \<and>
                          band_flux [Esplit] alpha beta Ec Esplit nrm 1 = Inr [Some y0] \<and>
                          \<bar>y - y0\<bar> < eps)))"
    if r: "py_pow ?d ?d = Inr p" for p
  proof -
    from py_pow_self_returns [OF d r] have pv: "p = ?d powr ?d"
      and nov: "?d powr ?d < overflow_threshold"
      by simp_all
    have ex: "math_exp (beta - alpha) = Inr (exp (beta - alpha))"
      using math_exp_neg [OF d nov] by simp
    have p: "py_pow ?d ?d = Inr (?d powr ?d)"
      using r pv by simp
    have eq: "band_low nrm Ec alpha Esplit =
        band_high nrm p (exp (beta - alpha)) Ec alpha beta Esplit"
      using band_branches_equal(1) [OF assms(1,2), of nrm] assms(3) pv by simp
    have fl: "band_flux [Esplit] alpha beta Ec Esplit nrm 1 = Inr [band_low nrm Ec alpha Esplit]"
      using band_flux_band [OF _ r ex, of 1 "[Esplit]" Ec Esplit nrm] eq by simp
    have val: "band_low nrm Ec alpha Esplit = Some (n * ?d powr alpha * exp (- ?d))"
      if "nrm = Some n" for n
      using band_branches_equal(2) [OF assms(1,2), of n] assms(3) that by simp
    have cont: "\<exists>delta>0. \<forall>xi. \<bar>xi - Esplit\<bar> < delta \<longrightarrow>
           (\<exists>y y0. band_flux [xi] alpha beta Ec Esplit nrm 1 = Inr [Some y] \<and>
                    band_flux [Esplit] alpha beta Ec Esplit nrm 1 = Inr [Some y0] \<and>
                    \<bar>y - y0\<bar> < eps)"
      if "nrm = Some n" and "0 < eps" for n eps
      using band_output_continuous [OF assms(1,2) that(2) p ex, of n] assms(3) that(1) by simp
    from ex eq fl val cont show ?thesis
      by blast
  qed
  from small main show ?thesis
    by blast
qed

theorem band_branches_agree_at_split_witness:
  "(- 1::real) < 0 \<and> (0::real) < 1 \<and> (1::real) = band_Esplit 0 (- 1) 1 \<and>
   ((0::real) \<le> 1 \<and> (1::real) \<le> 2) \<and> (0::real) - - 1 \<le> 128 \<and>
   py_pow (0 - - 1) (0 - - 1) = Inr 1 \<and>
   band_low (Some 5) 1 0 1 = Some (5 * exp (- 1)) \<and>
   band_flux [1] 0 (- 1) 1 1 (Some 5) 1 = Inr [Some (5 * exp (- 1))]"
proof -
  have 1: "(- 1::real) < 0" and 2: "(0::real) < 1" by simp_all
  have 3: "(1::real) = band_Esplit 0 (- 1) 1"
    by (simp add: band_Esplit_def)
  have 4: "(0::real) \<le> 1 \<and> (1::real) \<le> 2" by simp
  note t = band_branches_agree_at_split [OF 1 2 3 4, of "Some 5"]
  from t have 5: "py_pow (0 - - 1) (0 - - 1) = Inr 1"
    by simp
  from t 5 have "band_low (Some 5) 1 0 1 = Some (5 * exp (- 1)) \<and>
      band_flux [1] 0 (- 1) 1 1 (Some 5) 1 = Inr [Some (5 * exp (- 1))]"
    by auto
  with 3 5 show ?thesis
    by simp
qed

end
